theory Spec2Isabelle
  imports
    Complex_Main
    "HOL-Library.Word"
    "HOL-Library.Char_ord"
    "HOL-Library.List_Lexorder"
    "HOL-Library.Multiset"
begin

section \<open>Data model (src/src/models.py)\<close>

text \<open>
  The dataclass \<open>Track\<close>. The field \<open>id\<close> is called \<open>track_id\<close> here (\<open>id\<close> is
  HOL's identity function). \<open>name\<close> and \<open>artist\<close> are declared \<open>str\<close>, but the
  routes read them as \<open>(t.name or '')\<close>, so \<open>None\<close> is a value they can hold.
\<close>

record track =
  track_id :: string
  name :: "string option"
  artist :: "string option"
  album :: string
  spotify_url :: string
  image_url :: "string option"
  preview_url :: "string option"

section \<open>Python values\<close>

text \<open>Truthiness of an \<open>Optional[str]\<close>: \<open>None\<close> and \<open>''\<close> are falsy.\<close>

definition truthy :: "string option \<Rightarrow> bool" where
  "truthy e = (case e of None \<Rightarrow> False | Some s \<Rightarrow> s \<noteq> [])"

text \<open>\<open>e or d\<close> for an \<open>Optional[str]\<close> \<open>e\<close> and a string \<open>d\<close>.\<close>

definition str_or :: "string option \<Rightarrow> string \<Rightarrow> string" where
  "str_or e d = (case e of None \<Rightarrow> d | Some s \<Rightarrow> if s = [] then d else s)"

text \<open>
  \<open>xs[start:end]\<close>: a negative index counts from the end, and both indices are
  clamped to the list.
\<close>

definition py_slice :: "'a list \<Rightarrow> int \<Rightarrow> int \<Rightarrow> 'a list" where
  "py_slice xs start end =
     (let n = int (length xs);
          s = (if start < 0 then max 0 (start + n) else min start n);
          e = (if end < 0 then max 0 (end + n) else min end n)
      in take (nat (e - s)) (drop (nat s) xs))"

section \<open>The external music API, as the favorites adapter sees it\<close>

text \<open>
  A call of the Spotify client either raises (with the exception's text) or returns.
\<close>

datatype 'a reply = Raises string | Returns 'a

text \<open>
  The value under \<open>'items'\<close> of a saved-tracks response: a list of items, or something
  that is not a list. An item is \<open>Some t\<close> when \<open>_parse_tracks_from_response\<close> turns it
  into the track \<open>t\<close>, and \<open>None\<close> when that function skips it (a falsy item, not a
  dict, no \<open>'track'\<close>, or \<open>Track.from_spotify_data\<close> raised).
\<close>

datatype items_val = ItemsList "track option list" | ItemsOther

text \<open>
  A response dict: the keys \<open>'items'\<close> and \<open>'total'\<close> when present, and whether it has
  any other key. The response itself is a \<open>saved_page option\<close>: \<open>None\<close> is Python's.
\<close>

record saved_page =
  items :: "items_val option"
  total :: "int option"
  other_keys :: bool

text \<open>\<open>not results\<close> is true for \<open>None\<close> and for the empty dict.\<close>

definition results_truthy :: "saved_page option \<Rightarrow> bool" where
  "results_truthy r =
     (case r of None \<Rightarrow> False
      | Some d \<Rightarrow> items d \<noteq> None \<or> total d \<noteq> None \<or> other_keys d)"

text \<open>
  What the adapter does to the outside, in order: an authentication check, a
  \<open>current_user_saved_tracks(limit, offset)\<close> request, a
  \<open>current_user_saved_tracks_contains(ids)\<close> request.
\<close>

datatype sp_event =
    AuthCheck
  | SavedTracksReq int int
  | ContainsReq "string list"

text \<open>
  \<open>_validate_authentication\<close> reads the session token and builds the client; both
  live outside this repository's files, so the four ways it can end are the
  environment's choice.
\<close>

datatype auth_outcome = NoToken | NoInstance | AuthRaises string | Authenticated

text \<open>
  The environment answers each interaction knowing everything the adapter did to it
  before (the log of earlier events), so two identical requests may be answered
  differently.
\<close>

record env =
  auth :: "sp_event list \<Rightarrow> auth_outcome"
  current_user_saved_tracks ::
    "sp_event list \<Rightarrow> int \<Rightarrow> int \<Rightarrow> saved_page option reply"
  current_user_saved_tracks_contains ::
    "sp_event list \<Rightarrow> string list \<Rightarrow> bool list option reply"

text \<open>The adapter operations a route can enter, with the arguments as passed.\<close>

datatype fm_call =
    GetSavedTracks int int
  | GetAllSavedTracks
  | GetTotalSavedTracks
  | CheckSavedTracks "string list"

text \<open>
  The state threaded through every operation: the interactions with the outside so
  far, and the adapter operations entered so far.
\<close>

record world =
  sp_log :: "sp_event list"
  fm_log :: "fm_call list"

definition enter :: "fm_call \<Rightarrow> world \<Rightarrow> world" where
  "enter c w = w\<lparr>fm_log := fm_log w @ [c]\<rparr>"

definition sp_saved_tracks ::
  "env \<Rightarrow> int \<Rightarrow> int \<Rightarrow> world \<Rightarrow> saved_page option reply \<times> world" where
  "sp_saved_tracks ev limit offset w =
     (current_user_saved_tracks ev (sp_log w) limit offset,
      w\<lparr>sp_log := sp_log w @ [SavedTracksReq limit offset]\<rparr>)"


section \<open>The favorites adapter (src/src/favorites_manager.py)\<close>

text \<open>
  Messages are the source's, written without their diacritics (the theory is ASCII).
\<close>

definition MAX_TRACKS_PER_REQUEST :: int where
  "MAX_TRACKS_PER_REQUEST = 50"


definition parse_tracks_from_response :: "track option list \<Rightarrow> track list" where
  "parse_tracks_from_response its = List.map_filter (\<lambda>i. i) its"

text \<open>
  \<open>_validate_authentication\<close>: the pair (a client was obtained, error message).
\<close>

definition validate_authentication ::
  "env \<Rightarrow> world \<Rightarrow> (bool \<times> string option) \<times> world" where
  "validate_authentication ev w =
     ((case auth ev (sp_log w) of
         NoToken \<Rightarrow> (False, Some ''Usuario nao autenticado no Spotify.'')
       | NoInstance \<Rightarrow> (False, Some ''Erro ao conectar ao Spotify.'')
       | AuthRaises e \<Rightarrow> (False, Some (''Erro ao conectar ao Spotify: '' @ e))
       | Authenticated \<Rightarrow> (True, None)),
      w\<lparr>sp_log := sp_log w @ [AuthCheck]\<rparr>)"

definition get_saved_tracks ::
  "env \<Rightarrow> int \<Rightarrow> int \<Rightarrow> world \<Rightarrow> (track list \<times> string option) \<times> world" where
  "get_saved_tracks ev limit0 offset0 w0 =
     (let limit = max 1 (min MAX_TRACKS_PER_REQUEST limit0);
          offset = max 0 offset0;
          ((sp, error), w1) = validate_authentication ev (enter (GetSavedTracks limit0 offset0) w0)
      in if truthy error \<or> \<not> sp then (([], Some (str_or error ''Erro na autenticacao'')), w1)
         else
           (case sp_saved_tracks ev limit offset w1 of
              (Raises e, w2) \<Rightarrow> (([], Some (''Erro ao obter favoritos: '' @ e)), w2)
            | (Returns results, w2) \<Rightarrow>
                if \<not> results_truthy results
                then (([], Some ''Nenhum resultado retornado pela API''), w2)
                else
                  (case results of
                     Some d \<Rightarrow>
                       (case items d of
                          Some (ItemsList its) \<Rightarrow> ((parse_tracks_from_response its, None), w2)
                        | _ \<Rightarrow> (([], None), w2))
                   | None \<Rightarrow> (([], None), w2))))"

text \<open>
  \<open>get_all_saved_tracks\<close>: the \<open>while True\<close> loop, with its three variables. An
  exception anywhere inside the \<open>try\<close> discards what was gathered.
\<close>

function get_all_loop ::
  "env \<Rightarrow> track list \<Rightarrow> int \<Rightarrow> int \<Rightarrow> world \<Rightarrow> (track list \<times> string option) \<times> world" where
  "get_all_loop ev all_tracks offset page w =
     (case sp_saved_tracks ev MAX_TRACKS_PER_REQUEST offset w of
        (Raises e, w1) \<Rightarrow> (([], Some (''Erro ao obter todos os favoritos: '' @ e)), w1)
      | (Returns results, w1) \<Rightarrow>
          (case (if results_truthy results then results else None) of
             None \<Rightarrow> ((all_tracks, None), w1)
           | Some d \<Rightarrow>
               (case items d of
                  None \<Rightarrow> ((all_tracks, None), w1)
                | Some ItemsOther \<Rightarrow> ((all_tracks, None), w1)
                | Some (ItemsList its) \<Rightarrow>
                    if its = [] then ((all_tracks, None), w1)
                    else
                      (let all_tracks1 = all_tracks @ parse_tracks_from_response its
                       in if int (length its) < MAX_TRACKS_PER_REQUEST
                          then ((all_tracks1, None), w1)
                          else if page + 1 > 1000 then ((all_tracks1, None), w1)
                          else get_all_loop ev all_tracks1
                                 (offset + MAX_TRACKS_PER_REQUEST) (page + 1) w1))))"
  by pat_completeness auto
termination
  by (relation "measure (\<lambda>(ev, all_tracks, offset, page, w). nat (1000 - page))") auto

declare get_all_loop.simps [simp del]

definition get_all_saved_tracks ::
  "env \<Rightarrow> world \<Rightarrow> (track list \<times> string option) \<times> world" where
  "get_all_saved_tracks ev w0 =
     (let ((sp, error), w1) = validate_authentication ev (enter GetAllSavedTracks w0)
      in if truthy error \<or> \<not> sp then (([], Some (str_or error ''Erro na autenticacao'')), w1)
         else get_all_loop ev [] 0 1 w1)"






text \<open>
  \<open>get_total_saved_tracks\<close>. The request is \<open>current_user_saved_tracks(limit=1)\<close>; the
  offset is left to the client's default, 0.
\<close>

definition get_total_saved_tracks :: "env \<Rightarrow> world \<Rightarrow> (int \<times> string option) \<times> world" where
  "get_total_saved_tracks ev w0 =
     (let ((sp, error), w1) = validate_authentication ev (enter GetTotalSavedTracks w0)
      in if truthy error \<or> \<not> sp then ((0, Some (str_or error ''Erro na autenticacao'')), w1)
         else
           (case sp_saved_tracks ev 1 0 w1 of
              (Raises e, w2) \<Rightarrow> ((0, Some (''Erro ao obter total de favoritos: '' @ e)), w2)
            | (Returns results, w2) \<Rightarrow>
                (case (if results_truthy results then results else None) of
                   None \<Rightarrow> ((0, Some ''Resposta invalida da API''), w2)
                 | Some d \<Rightarrow>
                     (case total d of
                        None \<Rightarrow> ((0, Some ''Resposta invalida da API''), w2)
                      | Some n \<Rightarrow> ((n, None), w2)))))"

section \<open>The favorites routes (src/app.py)\<close>


definition lower_char :: "char \<Rightarrow> char" where
  "lower_char c =
     (if (65::nat) \<le> of_char c \<and> of_char c \<le> (90::nat)
      then char_of (of_char c + (32::nat)) else c)"

definition casefold :: "string \<Rightarrow> string" where
  "casefold s = map lower_char s"

definition sort_key_name :: "track \<Rightarrow> string" where
  "sort_key_name t = casefold (str_or (name t) [])"

definition sort_key_artist :: "track \<Rightarrow> string" where
  "sort_key_artist t = casefold (str_or (artist t) [])"

text \<open>
  \<open>list.sort(key=..., reverse=...)\<close>. Python's sort is stable, and with
  \<open>reverse=True\<close> it still keeps elements with equal keys in their original order
  (it sorts as if the list were reversed, sorted and reversed again).
\<close>

definition list_sort :: "('a \<Rightarrow> 'k::linorder) \<Rightarrow> bool \<Rightarrow> 'a list \<Rightarrow> 'a list" where
  "list_sort key reverse xs =
     (if reverse then rev (sort_key key (rev xs)) else sort_key key xs)"

text \<open>The \<open>if sort == ... elif ...\<close> chain shared by both routes.\<close>

definition sort_tracks :: "string \<Rightarrow> track list \<Rightarrow> track list" where
  "sort_tracks sort_arg tracks =
     (if sort_arg = ''name-asc'' then list_sort sort_key_name False tracks
      else if sort_arg = ''name-desc'' then list_sort sort_key_name True tracks
      else if sort_arg = ''artist-asc'' then list_sort sort_key_artist False tracks
      else if sort_arg = ''artist-desc'' then list_sort sort_key_artist True tracks
      else tracks)"

text \<open>The context \<open>favoritos\<close> hands to the template \<open>favoritos.html\<close>.\<close>

record favoritos_html =
  h_tracks :: "track list"
  h_error :: "string option"
  h_total :: int
  h_page :: int
  h_limit :: int
  h_sort :: string

definition favoritos ::
  "env \<Rightarrow> int \<Rightarrow> int \<Rightarrow> string \<Rightarrow> world \<Rightarrow> favoritos_html \<times> world" where
  "favoritos ev page0 limit0 sort_arg w =
     (let page = max 1 page0;
          fetch_all = (limit0 > 1000 \<or> sort_arg \<noteq> ''default'')
      in if fetch_all then
           (case get_all_saved_tracks ev w of
              ((tracks, error), w1) \<Rightarrow>
                if truthy error
                then (\<lparr>h_tracks = [], h_error = error, h_total = 0, h_page = 1,
                        h_limit = 20, h_sort = sort_arg\<rparr>, w1)
                else
                  (let tracks1 = sort_tracks sort_arg tracks;
                       total_favorites = int (length tracks1)
                   in if limit0 > 1000
                      then (\<lparr>h_tracks = tracks1, h_error = None, h_total = total_favorites,
                              h_page = 1, h_limit = 9999, h_sort = sort_arg\<rparr>, w1)
                      else
                        (let limit = min (max 20 limit0) 100;
                             page1 = max 1 page;
                             start = (page1 - 1) * limit;
                             end = start + limit;
                             page_tracks = py_slice tracks1 start end
                         in (\<lparr>h_tracks = page_tracks, h_error = None,
                                h_total = total_favorites, h_page = page1, h_limit = limit,
                                h_sort = sort_arg\<rparr>, w1))))
         else
           (let limit = min (max 20 limit0) 100;
                offset = (page - 1) * limit
            in case get_saved_tracks ev limit offset w of
                 ((tracks, error), w1) \<Rightarrow>
                   (case get_total_saved_tracks ev w1 of
                      ((total_favorites, total_error), w2) \<Rightarrow>
                        (let total_favorites1 =
                               (if truthy total_error then int (length tracks)
                                else total_favorites)
                         in if truthy error
                            then (\<lparr>h_tracks = [], h_error = error, h_total = 0, h_page = 1,
                                    h_limit = limit, h_sort = sort_arg\<rparr>, w2)
                            else (\<lparr>h_tracks = tracks, h_error = None,
                                    h_total = total_favorites1, h_page = page,
                                    h_limit = limit, h_sort = sort_arg\<rparr>, w2)))))"

text \<open>
  The JSON of \<open>api_favoritos\<close>: one dict of six fields per track, and either
  \<open>{'success': False, 'error': ...}\<close> with status 500 or the page with status 200.
\<close>

record track_dict =
  d_id :: string
  d_name :: "string option"
  d_artist :: "string option"
  d_album :: string
  d_image_url :: "string option"
  d_spotify_url :: string

definition to_dict :: "track \<Rightarrow> track_dict" where
  "to_dict t =
     \<lparr>d_id = track_id t, d_name = name t, d_artist = artist t, d_album = album t,
      d_image_url = image_url t, d_spotify_url = spotify_url t\<rparr>"

record favorites_page =
  j_tracks :: "track_dict list"
  j_total :: int
  j_page :: int
  j_limit :: int
  j_total_pages :: int

datatype api_response = Failure "string option" | Success favorites_page

definition status_code :: "api_response \<Rightarrow> nat" where
  "status_code r = (case r of Failure e \<Rightarrow> 500 | Success p \<Rightarrow> 200)"

definition api_favoritos ::
  "env \<Rightarrow> int \<Rightarrow> int \<Rightarrow> string \<Rightarrow> world \<Rightarrow> api_response \<times> world" where
  "api_favoritos ev page0 limit0 sort_arg w =
     (let page = max 1 page0
      in if limit0 > 1000 \<or> sort_arg \<noteq> ''default'' then
           (case get_all_saved_tracks ev w of
              ((tracks, error), w1) \<Rightarrow>
                if truthy error then (Failure error, w1)
                else
                  (let tracks1 = sort_tracks sort_arg tracks;
                       total = int (length tracks1)
                   in if limit0 > 1000
                      then (Success \<lparr>j_tracks = map to_dict tracks1, j_total = total,
                                     j_page = 1, j_limit = total, j_total_pages = 1\<rparr>, w1)
                      else
                        (let limit = min (max 20 limit0) 100;
                             page1 = max 1 page;
                             start = (page1 - 1) * limit;
                             end = start + limit;
                             paged_tracks = py_slice tracks1 start end
                         in (Success \<lparr>j_tracks = map to_dict paged_tracks, j_total = total,
                                       j_page = page1, j_limit = limit,
                                       j_total_pages = (total + limit - 1) div limit\<rparr>, w1))))
         else
           (let limit = min (max 20 limit0) 100;
                offset = (page - 1) * limit
            in case get_saved_tracks ev limit offset w of
                 ((tracks, error), w1) \<Rightarrow>
                   if truthy error then (Failure error, w1)
                   else
                     (case get_total_saved_tracks ev w1 of
                        ((total0, error1), w2) \<Rightarrow>
                          (let total = (if truthy error1 then int (length tracks) else total0)
                           in (Success \<lparr>j_tracks = map to_dict tracks, j_total = total,
                                         j_page = page, j_limit = limit,
                                         j_total_pages = (total + limit - 1) div limit\<rparr>,
                               w2)))))"

section \<open>Fixtures for the examples\<close>

text \<open>
  A well-behaved music service holding the library \<open>lib\<close>: every request is
  authenticated, a page request returns the window \<open>lib[offset : offset + limit]\<close> with
  the true total, and the existence check answers by the ids in the library.
\<close>

definition mk_track :: "string \<Rightarrow> string \<Rightarrow> string \<Rightarrow> track" where
  "mk_track i nm ar =
     \<lparr>track_id = i, name = Some nm, artist = Some ar, album = [], spotify_url = [],
      image_url = Some [], preview_url = None\<rparr>"

definition library_env :: "track list \<Rightarrow> env" where
  "library_env lib =
     \<lparr>auth = (\<lambda>h. Authenticated),
      current_user_saved_tracks = (\<lambda>h limit offset.
         Returns (Some \<lparr>items = Some (ItemsList (map Some (take (nat limit) (drop (nat offset) lib)))),
                         total = Some (int (length lib)), other_keys = True\<rparr>)),
      current_user_saved_tracks_contains = (\<lambda>h ids.
         Returns (Some (map (\<lambda>i. i \<in> set (map track_id lib)) ids)))\<rparr>"

text \<open>The same service, except that every \<open>limit=1\<close> request (the total count) raises.\<close>

definition no_total_env :: "track list \<Rightarrow> env" where
  "no_total_env lib =
     (library_env lib)\<lparr>current_user_saved_tracks := (\<lambda>h limit offset.
         if limit = 1 then Raises ''timeout''
         else current_user_saved_tracks (library_env lib) h limit offset)\<rparr>"




definition w_init :: world where
  "w_init = \<lparr>sp_log = [], fm_log = []\<rparr>"

section \<open>The cache layer (src/src/cache_manager.py)\<close>

text \<open>
  The values a cached call is given as arguments, and \<open>str()\<close> of them. \<open>PObj\<close> is an
  object of a class that defines no \<open>__str__\<close>, such as the \<open>self\<close> of a decorated method
  of \<open>MusicCRUD\<close>: Python prints it as its class and the address the interpreter gave
  it, and the constructor carries that text.
\<close>

datatype pyval = PStr string | PInt int | PBool bool | PNone | PObj string

fun dec_nat :: "nat \<Rightarrow> string" where
  "dec_nat n =
     (if n < 10 then [char_of (48 + n)]
      else dec_nat (n div 10) @ [char_of (48 + n mod 10)])"

declare dec_nat.simps [simp del]

definition py_str :: "pyval \<Rightarrow> string" where
  "py_str v =
     (case v of
        PStr s \<Rightarrow> s
      | PInt i \<Rightarrow> (if i < 0 then ''-'' @ dec_nat (nat (- i)) else dec_nat (nat i))
      | PBool b \<Rightarrow> (if b then ''True'' else ''False'')
      | PNone \<Rightarrow> ''None''
      | PObj s \<Rightarrow> s)"

text \<open>\<open>sep.join(parts)\<close>.\<close>

fun join :: "string \<Rightarrow> string list \<Rightarrow> string" where
  "join sep [] = []"
| "join sep [x] = x"
| "join sep (x # y # ys) = x @ sep @ join sep (y # ys)"

text \<open>
  \<open>CacheManager._generate_key\<close>. The keyword arguments are a dict, here the list of its
  items in call order, with distinct keys; \<open>sorted(kwargs.items())\<close> orders them by key
  (no two keys are equal, so the values are never compared). \<open>hexdigest\<close> stands for
  \<open>hashlib.md5(s.encode()).hexdigest()\<close>, a function of the standard library that the
  key function is given as a parameter here.
\<close>

definition key_string :: "pyval list \<Rightarrow> (string \<times> pyval) list \<Rightarrow> string" where
  "key_string args kwargs =
     join ''|'' (map py_str args @ map (\<lambda>(k, v). k @ ''='' @ py_str v) (sort_key fst kwargs))"

definition generate_key ::
  "(string \<Rightarrow> string) \<Rightarrow> string \<Rightarrow> pyval list \<Rightarrow> (string \<times> pyval) list \<Rightarrow> string" where
  "generate_key hexdigest prefix args kwargs =
     ''rhythmbox:'' @ prefix @ '':'' @ take 16 (hexdigest (key_string args kwargs))"

definition is_hex :: "char \<Rightarrow> bool" where
  "is_hex c = (c \<in> set ''0123456789abcdef'')"

text \<open>What a digest in hexadecimal is: 32 characters, each a lowercase hex digit.\<close>

definition hex_digest :: "(string \<Rightarrow> string) \<Rightarrow> bool" where
  "hex_digest h = (\<forall>s. length (h s) = 32 \<and> list_all is_hex (h s))"

text \<open>
  The Redis client, as the cache manager sees it: each request is answered knowing
  the requests made before it. A reply either raises or returns; \<open>get\<close> returns the
  stored bytes or \<open>None\<close>.
\<close>

datatype redis_req = Ping | RGet string | RSetEx string int string | RSet string string

type_synonym redis = "redis_req list \<Rightarrow> redis_req \<Rightarrow> string option reply"

text \<open>
  \<open>json.dumps(value, default=str)\<close> and \<open>json.loads\<close>, for the values of type \<open>'v\<close> the
  wrapped operation returns. \<open>dumps\<close> is \<open>None\<close> when it raises; \<open>loads\<close> is \<open>None\<close> when it
  raises, \<open>Some None\<close> for \<open>null\<close>.
\<close>

record 'v codec =
  dumps :: "'v \<Rightarrow> string option"
  loads :: "string \<Rightarrow> 'v option option"

text \<open>
  The state threaded through the cache layer: the requests sent to Redis, and how
  often the wrapped operation has run.
\<close>

record cworld =
  redis_log :: "redis_req list"
  f_calls :: nat

definition redis_call :: "redis \<Rightarrow> redis_req \<Rightarrow> cworld \<Rightarrow> string option reply \<times> cworld" where
  "redis_call r req w = (r (redis_log w) req, w\<lparr>redis_log := redis_log w @ [req]\<rparr>)"

text \<open>A \<open>CacheManager\<close>: its \<open>redis\<close> attribute (\<open>None\<close> when built without a client).\<close>

type_synonym cache_manager = "redis option"

definition enabled :: "cache_manager \<Rightarrow> cworld \<Rightarrow> bool \<times> cworld" where
  "enabled cm w =
     (case cm of
        None \<Rightarrow> (False, w)
      | Some r \<Rightarrow>
          (case redis_call r Ping w of
             (Raises e, w1) \<Rightarrow> (False, w1)
           | (Returns x, w1) \<Rightarrow> (True, w1)))"


definition cache_set ::
  "'v codec \<Rightarrow> cache_manager \<Rightarrow> string \<Rightarrow> 'v \<Rightarrow> int option \<Rightarrow> cworld \<Rightarrow> bool \<times> cworld" where
  "cache_set cd cm key val ttl w =
     (case enabled cm w of
        (False, w1) \<Rightarrow> (False, w1)
      | (True, w1) \<Rightarrow>
          (case dumps cd val of
             None \<Rightarrow> (False, w1)
           | Some serialized \<Rightarrow>
               (case redis_call (the cm)
                       (if ttl \<noteq> None \<and> ttl \<noteq> Some 0 then RSetEx key (the ttl) serialized
                        else RSet key serialized) w1 of
                  (Raises e, w2) \<Rightarrow> (False, w2)
                | (Returns x, w2) \<Rightarrow> (True, w2))))"

text \<open>
  The wrapped operation \<open>f\<close>: given how often it has run before and its arguments, it
  raises or returns a value (\<open>None\<close> is Python's). Running it counts.
\<close>

type_synonym 'v operation = "nat \<Rightarrow> pyval list \<Rightarrow> (string \<times> pyval) list \<Rightarrow> 'v option reply"

definition run :: "'v operation \<Rightarrow> pyval list \<Rightarrow> (string \<times> pyval) list \<Rightarrow> cworld \<Rightarrow> 'v option reply \<times> cworld" where
  "run f args kwargs w = (f (f_calls w) args kwargs, w\<lparr>f_calls := f_calls w + 1\<rparr>)"








definition fake_digest :: "string \<Rightarrow> string" where
  "fake_digest s = replicate 32 (CHR ''0'')"

text \<open>
  A library of \<open>n\<close> distinct tracks: track \<open>i\<close> has the id and name \<open>i\<close> and the artist
  \<open>1000 - i\<close>, in decimal.
\<close>

definition numbered_library :: "nat \<Rightarrow> track list" where
  "numbered_library n = map (\<lambda>i. mk_track (dec_nat i) (dec_nat i) (dec_nat (1000 - i))) [0..<n]"

section \<open>Notions the statements use\<close>








text \<open>
  For the fetch-all loop: the log once \<open>k\<close> pages were requested after the log \<open>h\<close>; the
  reply of the service to the request for page \<open>k\<close> (counted from 0); whether a reply
  is a page the loop goes on after (a list of at least 50 items); the items a reply
  contributes; and the first page among the first 1000 that the loop does not go on
  after, 1000 when there is none. A service that always answers with 50 items.
\<close>

definition page_history :: "sp_event list \<Rightarrow> nat \<Rightarrow> sp_event list" where
  "page_history h k = h @ map (\<lambda>j. SavedTracksReq 50 (50 * int j)) [0..<k]"

definition page_reply :: "env \<Rightarrow> sp_event list \<Rightarrow> nat \<Rightarrow> saved_page option reply" where
  "page_reply ev h k = current_user_saved_tracks ev (page_history h k) 50 (50 * int k)"

definition page_items :: "saved_page option reply \<Rightarrow> track option list" where
  "page_items r =
     (case r of
        Returns (Some d) \<Rightarrow> (case items d of Some (ItemsList its) \<Rightarrow> its | _ \<Rightarrow> [])
      | _ \<Rightarrow> [])"

definition full_page :: "saved_page option reply \<Rightarrow> bool" where
  "full_page r = (case r of Returns x \<Rightarrow> 50 \<le> length (page_items r) | Raises e \<Rightarrow> False)"

definition stop_index :: "env \<Rightarrow> sp_event list \<Rightarrow> nat" where
  "stop_index ev h =
     (case find (\<lambda>j. \<not> full_page (page_reply ev h j)) [0..<1000] of
        None \<Rightarrow> 1000
      | Some j \<Rightarrow> j)"

definition endless_env :: "track \<Rightarrow> env" where
  "endless_env t =
     (library_env [])\<lparr>current_user_saved_tracks := (\<lambda>h limit offset.
         Returns (Some \<lparr>items = Some (ItemsList (replicate 50 (Some t))),
                         total = Some 50, other_keys = True\<rparr>))\<rparr>"




section \<open>Properties\<close>

lemma validate_authentication_fm_log [simp]:
  "fm_log (snd (validate_authentication ev w)) = fm_log w"
  by (simp add: validate_authentication_def)

lemma validate_authentication_sp_log [simp]:
  "sp_log (snd (validate_authentication ev w)) = sp_log w @ [AuthCheck]"
  by (simp add: validate_authentication_def)

lemma sp_saved_tracks_fm_log [simp]:
  "fm_log (snd (sp_saved_tracks ev l off w)) = fm_log w"
  by (simp add: sp_saved_tracks_def)

lemma get_all_loop_fm_log:
  "fm_log (snd (get_all_loop ev acc off page w)) = fm_log w"
proof (induction ev acc off page w rule: get_all_loop.induct)
  case (1 ev all_tracks offset page w)
  show ?case
    apply (subst get_all_loop.simps)
    apply (auto simp: sp_saved_tracks_def Let_def split: prod.splits reply.splits option.splits items_val.splits)
    using 1 apply (auto simp: sp_saved_tracks_def)
    done
qed

lemma get_all_saved_tracks_fm_log:
  "fm_log (snd (get_all_saved_tracks ev w)) = fm_log w @ [GetAllSavedTracks]"
  by (auto simp: get_all_saved_tracks_def get_all_loop_fm_log enter_def validate_authentication_def split: prod.splits)

lemma get_saved_tracks_fm_log:
  "fm_log (snd (get_saved_tracks ev l off w)) = fm_log w @ [GetSavedTracks l off]"
  by (auto simp: get_saved_tracks_def enter_def validate_authentication_def sp_saved_tracks_def Let_def
       split: prod.splits reply.splits option.splits items_val.splits)

lemma get_total_saved_tracks_fm_log:
  "fm_log (snd (get_total_saved_tracks ev w)) = fm_log w @ [GetTotalSavedTracks]"
  by (auto simp: get_total_saved_tracks_def enter_def validate_authentication_def sp_saved_tracks_def Let_def
       split: prod.splits reply.splits option.splits items_val.splits)


text \<open>
  Claim C1. Both routes enter the adapter's fetch-all operation, and nothing else, exactly
  when \<open>limit > 1000\<close> or \<open>sort\<close> is not \<open>default\<close>. Otherwise they enter the paged fetch
  with the limit clamped to \<open>[20, 100]\<close> and the offset \<open>(page - 1) * limit\<close>, where \<open>page\<close> is the
  requested page raised to at least 1 (for \<open>page \<ge> 1\<close> the requested page itself), followed
  by the total count (which the JSON route skips when the page fetch failed).
\<close>
theorem favorites_branch_selection:
  "fm_log (snd (favoritos ev page limit sort_arg w)) =
     fm_log w @
       (if limit > 1000 \<or> sort_arg \<noteq> ''default'' then [GetAllSavedTracks]
        else [GetSavedTracks (min (max 20 limit) 100) ((max 1 page - 1) * min (max 20 limit) 100),
              GetTotalSavedTracks])
   \<and> fm_log (snd (api_favoritos ev page limit sort_arg w)) =
     fm_log w @
       (if limit > 1000 \<or> sort_arg \<noteq> ''default'' then [GetAllSavedTracks]
        else if truthy (snd (fst (get_saved_tracks ev (min (max 20 limit) 100)
                                   ((max 1 page - 1) * min (max 20 limit) 100) w)))
        then [GetSavedTracks (min (max 20 limit) 100) ((max 1 page - 1) * min (max 20 limit) 100)]
        else [GetSavedTracks (min (max 20 limit) 100) ((max 1 page - 1) * min (max 20 limit) 100),
              GetTotalSavedTracks])
   \<and> 20 \<le> min (max 20 limit) 100 \<and> min (max 20 limit) 100 \<le> 100
   \<and> (1 \<le> page \<longrightarrow> (max 1 page - 1) * min (max 20 limit) 100 = (page - 1) * min (max 20 limit) 100)"
proof -
  have A: "fm_log (snd (favoritos ev page limit sort_arg w)) =
     fm_log w @
       (if limit > 1000 \<or> sort_arg \<noteq> ''default'' then [GetAllSavedTracks]
        else [GetSavedTracks (min (max 20 limit) 100) ((max 1 page - 1) * min (max 20 limit) 100),
              GetTotalSavedTracks])"
    unfolding favoritos_def Let_def
    using get_all_saved_tracks_fm_log[of ev w]
      get_saved_tracks_fm_log[of ev "min (max 20 limit) 100" "(max 1 page - 1) * min (max 20 limit) 100" w]
      get_total_saved_tracks_fm_log[of ev "snd (get_saved_tracks ev (min (max 20 limit) 100) ((max 1 page - 1) * min (max 20 limit) 100) w)"]
    by (auto split: prod.splits)
  have B: "fm_log (snd (api_favoritos ev page limit sort_arg w)) =
     fm_log w @
       (if limit > 1000 \<or> sort_arg \<noteq> ''default'' then [GetAllSavedTracks]
        else if truthy (snd (fst (get_saved_tracks ev (min (max 20 limit) 100)
                                   ((max 1 page - 1) * min (max 20 limit) 100) w)))
        then [GetSavedTracks (min (max 20 limit) 100) ((max 1 page - 1) * min (max 20 limit) 100)]
        else [GetSavedTracks (min (max 20 limit) 100) ((max 1 page - 1) * min (max 20 limit) 100),
              GetTotalSavedTracks])"
    unfolding api_favoritos_def Let_def
    using get_all_saved_tracks_fm_log[of ev w]
      get_saved_tracks_fm_log[of ev "min (max 20 limit) 100" "(max 1 page - 1) * min (max 20 limit) 100" w]
      get_total_saved_tracks_fm_log[of ev "snd (get_saved_tracks ev (min (max 20 limit) 100) ((max 1 page - 1) * min (max 20 limit) 100) w)"]
    by (auto split: prod.splits)
  show ?thesis using A B by simp
qed




lemma length_list_sort [simp]: "length (list_sort k r xs) = length xs"
  by (simp add: list_sort_def)

lemma length_sort_tracks [simp]: "length (sort_tracks m xs) = length xs"
  by (simp add: sort_tracks_def)

text \<open>
  Claim C9. On the paged path, when the page fetch succeeds and the total count returns
  an error, both routes report the length of the fetched page as the total and no
  error.
\<close>
theorem total_count_fallback:
  assumes "limit \<le> 1000" and "sort_arg = ''default''"
    and "l = min (max 20 limit) 100"
    and "get_saved_tracks ev l ((max 1 page - 1) * l) w = ((tracks, error), w1)"
    and "\<not> truthy error"
    and "get_total_saved_tracks ev w1 = ((n, total_error), w2)"
    and "truthy total_error"
  shows "fst (api_favoritos ev page limit sort_arg w) =
           Success \<lparr>j_tracks = map to_dict tracks, j_total = int (length tracks),
                    j_page = max 1 page, j_limit = l,
                    j_total_pages = (int (length tracks) + l - 1) div l\<rparr>
       \<and> fst (favoritos ev page limit sort_arg w) =
           \<lparr>h_tracks = tracks, h_error = None, h_total = int (length tracks),
            h_page = max 1 page, h_limit = l, h_sort = sort_arg\<rparr>"
  using assms unfolding api_favoritos_def favoritos_def Let_def by simp

text \<open>
  Claim C2, as amended. With \<open>limit > 1000\<close> and a successful fetch, both routes return the
  whole (sorted) sequence on page 1. The JSON route reports the number of tracks as the
  limit and one page in total; the HTML route reports the limit 9999.
\<close>
theorem fetch_all_sentinel_page:
  assumes "limit > 1000"
    and "get_all_saved_tracks ev w = ((tracks, error), w1)"
    and "\<not> truthy error"
  shows "fst (api_favoritos ev page limit sort_arg w) =
           Success \<lparr>j_tracks = map to_dict (sort_tracks sort_arg tracks),
                    j_total = int (length tracks), j_page = 1,
                    j_limit = int (length tracks), j_total_pages = 1\<rparr>
       \<and> fst (favoritos ev page limit sort_arg w) =
           \<lparr>h_tracks = sort_tracks sort_arg tracks, h_error = None,
            h_total = int (length tracks), h_page = 1, h_limit = 9999, h_sort = sort_arg\<rparr>"
  using assms unfolding api_favoritos_def favoritos_def Let_def by simp



text \<open>
  Claim C10. \<open>get_saved_tracks\<close> clamps its parameters: it answers as it does for
  \<open>max(1, min(50, limit))\<close> and \<open>max(0, offset)\<close>, these are the parameters of the request it
  sends, and an error it returns comes from the authentication or from the request,
  never from the parameters.
\<close>
theorem get_saved_tracks_clamps:
  "fst (get_saved_tracks ev limit offset w) =
     fst (get_saved_tracks ev (max 1 (min 50 limit)) (max 0 offset) w)
   \<and> sp_log (snd (get_saved_tracks ev limit offset w)) =
       sp_log w @
         (if auth ev (sp_log w) = Authenticated
          then [AuthCheck, SavedTracksReq (max 1 (min 50 limit)) (max 0 offset)]
          else [AuthCheck])
   \<and> 1 \<le> max 1 (min 50 limit) \<and> max 1 (min 50 limit) \<le> 50 \<and> 0 \<le> max 0 offset
   \<and> (snd (fst (get_saved_tracks ev limit offset w)) \<noteq> None \<longrightarrow>
        auth ev (sp_log w) \<noteq> Authenticated
        \<or> (\<exists>e. current_user_saved_tracks ev (sp_log w @ [AuthCheck])
                   (max 1 (min 50 limit)) (max 0 offset) = Raises e)
        \<or> (\<exists>r. current_user_saved_tracks ev (sp_log w @ [AuthCheck])
                   (max 1 (min 50 limit)) (max 0 offset) = Returns r \<and> \<not> results_truthy r))"
proof -
  have idem: "max 1 (min 50 (max 1 (min 50 limit))) = max 1 (min 50 limit)"
    "max 0 (max 0 offset) = max 0 offset" by simp_all
  have A: "fst (get_saved_tracks ev limit offset w) =
     fst (get_saved_tracks ev (max 1 (min 50 limit)) (max 0 offset) w)"
    unfolding get_saved_tracks_def MAX_TRACKS_PER_REQUEST_def Let_def idem
    by (simp add: validate_authentication_def enter_def sp_saved_tracks_def
          split: prod.splits auth_outcome.splits reply.splits option.splits items_val.splits)
  have B: "sp_log (snd (get_saved_tracks ev limit offset w)) =
       sp_log w @
         (if auth ev (sp_log w) = Authenticated
          then [AuthCheck, SavedTracksReq (max 1 (min 50 limit)) (max 0 offset)]
          else [AuthCheck])"
    unfolding get_saved_tracks_def MAX_TRACKS_PER_REQUEST_def Let_def
    by (auto simp: validate_authentication_def enter_def sp_saved_tracks_def truthy_def
          split: prod.splits auth_outcome.splits reply.splits option.splits items_val.splits)
  have C: "snd (fst (get_saved_tracks ev limit offset w)) \<noteq> None \<longrightarrow>
        auth ev (sp_log w) \<noteq> Authenticated
        \<or> (\<exists>e. current_user_saved_tracks ev (sp_log w @ [AuthCheck])
                   (max 1 (min 50 limit)) (max 0 offset) = Raises e)
        \<or> (\<exists>r. current_user_saved_tracks ev (sp_log w @ [AuthCheck])
                   (max 1 (min 50 limit)) (max 0 offset) = Returns r \<and> \<not> results_truthy r)"
    unfolding get_saved_tracks_def MAX_TRACKS_PER_REQUEST_def Let_def
    by (auto simp: validate_authentication_def enter_def sp_saved_tracks_def truthy_def
          split: prod.splits auth_outcome.splits reply.splits option.splits items_val.splits)
  show ?thesis using A B C by simp
qed




theorem favorites_branch_selection_witness:
  "fm_log (snd (api_favoritos (library_env []) 1 20 ''default'' w_init)) =
     [GetSavedTracks 20 0, GetTotalSavedTracks]
   \<and> fm_log (snd (favoritos (library_env []) 1 20 ''default'' w_init)) =
     [GetSavedTracks 20 0, GetTotalSavedTracks]
   \<and> fm_log (snd (api_favoritos (library_env []) 1 5000 ''default'' w_init)) = [GetAllSavedTracks]
   \<and> fm_log (snd (api_favoritos (library_env []) 1 20 ''name-asc'' w_init)) = [GetAllSavedTracks]"
proof -
  have e: "\<not> truthy (snd (fst (get_saved_tracks (library_env []) 20 0 w_init)))"
    by code_simp
  show ?thesis
    using favorites_branch_selection [of "library_env []" 1 20 "''default''" w_init]
      favorites_branch_selection [of "library_env []" 1 5000 "''default''" w_init]
      favorites_branch_selection [of "library_env []" 1 20 "''name-asc''" w_init] e
    by (simp add: w_init_def)
qed

theorem get_saved_tracks_clamps_witness:
  "sp_log (snd (get_saved_tracks (library_env []) 0 (- 5) w_init)) = [AuthCheck, SavedTracksReq 1 0]
   \<and> sp_log (snd (get_saved_tracks (library_env []) 500 7 w_init)) = [AuthCheck, SavedTracksReq 50 7]
   \<and> fst (get_saved_tracks (library_env []) 0 (- 5) w_init) = ([], None)"
proof -
  have e: "fst (get_saved_tracks (library_env []) 1 0 w_init) = ([], None)"
    by code_simp
  show ?thesis
    using get_saved_tracks_clamps [of "library_env []" 0 "- 5" w_init] get_saved_tracks_clamps [of "library_env []" 500 7 w_init] e
    by (simp add: w_init_def library_env_def)
qed

theorem total_count_fallback_witness:
  "fst (api_favoritos (no_total_env (replicate 15 (mk_track ''t'' ''n'' ''a''))) 1 20 ''default'' w_init) =
     Success \<lparr>j_tracks = map to_dict (replicate 15 (mk_track ''t'' ''n'' ''a'')), j_total = 15,
              j_page = 1, j_limit = 20, j_total_pages = 1\<rparr>
   \<and> h_total (fst (favoritos (no_total_env (replicate 15 (mk_track ''t'' ''n'' ''a''))) 1 20 ''default'' w_init)) = 15
   \<and> h_error (fst (favoritos (no_total_env (replicate 15 (mk_track ''t'' ''n'' ''a''))) 1 20 ''default'' w_init)) = None"
proof -
  let ?ev = "no_total_env (replicate 15 (mk_track ''t'' ''n'' ''a''))"
  obtain tracks error w1 where g: "get_saved_tracks ?ev 20 0 w_init = ((tracks, error), w1)"
    by (metis prod.collapse)
  obtain n terr w2 where t: "get_total_saved_tracks ?ev w1 = ((n, terr), w2)"
    by (metis prod.collapse)
  have e1: "fst (get_saved_tracks ?ev 20 0 w_init) = (replicate 15 (mk_track ''t'' ''n'' ''a''), None)"
    by code_simp
  have g': "tracks = replicate 15 (mk_track ''t'' ''n'' ''a'')" "error = None"
    using g e1 by simp_all
  have w1: "w1 = snd (get_saved_tracks ?ev 20 0 w_init)" using g by simp
  have t': "truthy (snd (fst (get_total_saved_tracks ?ev (snd (get_saved_tracks ?ev 20 0 w_init)))))"
    by code_simp
  have tr: "truthy terr" using t t' w1 by simp
  have ne: "\<not> truthy error" using g' by (simp add: truthy_def)
  have g2: "get_saved_tracks ?ev (min (max 20 20) 100) ((max 1 1 - 1) * min (max 20 20) 100) w_init
              = ((tracks, error), w1)" using g by simp
  have l: "(20::int) \<le> 1000" by simp
  show ?thesis
    using total_count_fallback [OF l refl refl g2 ne t tr] g' by simp
qed

theorem fetch_all_sentinel_page_witness:
  "fst (api_favoritos (library_env (numbered_library 37)) 1 5000 ''default'' w_init) =
     Success \<lparr>j_tracks = map to_dict (numbered_library 37), j_total = 37, j_page = 1,
              j_limit = 37, j_total_pages = 1\<rparr>
   \<and> h_limit (fst (favoritos (library_env (numbered_library 37)) 1 5000 ''default'' w_init)) = 9999"
proof -
  let ?ev = "library_env (numbered_library 37)"
  have e: "fst (get_all_saved_tracks ?ev w_init) = (numbered_library 37, None)"
    by code_simp
  have g: "get_all_saved_tracks ?ev w_init =
             ((numbered_library 37, None), snd (get_all_saved_tracks ?ev w_init))"
    using e by (metis prod.collapse)
  have n: "\<not> truthy None" by (simp add: truthy_def)
  have l: "(1000::int) < 5000" by simp
  have len: "length (numbered_library 37) = 37" by (simp add: numbered_library_def)
  show ?thesis
    using fetch_all_sentinel_page [OF l g n, of 1 "''default''"] len
    by (simp add: sort_tracks_def)
qed

text \<open>
  The claim C2 as stated fails on the HTML route: with \<open>limit = 5000\<close> on a library of
  37 tracks it reports the limit 9999, not 37.
\<close>

theorem fetch_all_sentinel_limit_counterexample:
  "h_error (fst (favoritos (library_env (numbered_library 37)) 1 5000 ''default'' w_init)) = None
   \<and> h_tracks (fst (favoritos (library_env (numbered_library 37)) 1 5000 ''default'' w_init)) =
       numbered_library 37
   \<and> h_total (fst (favoritos (library_env (numbered_library 37)) 1 5000 ''default'' w_init)) = 37
   \<and> h_limit (fst (favoritos (library_env (numbered_library 37)) 1 5000 ''default'' w_init)) = 9999"
  by code_simp














lemma join_Cons: "ys \<noteq> [] \<Longrightarrow> join sep (x # ys) = x @ sep @ join sep ys"
  by (cases ys) simp_all

lemma join_append:
  "xs \<noteq> [] \<Longrightarrow> ys \<noteq> [] \<Longrightarrow> join sep (xs @ ys) = join sep xs @ sep @ join sep ys"
proof (induction xs)
  case Nil
  then show ?case by simp
next
  case (Cons x xs)
  show ?case
  proof (cases "xs = []")
    case True
    then show ?thesis using Cons.prems by (simp add: join_Cons)
  next
    case False
    then show ?thesis using Cons by (simp add: join_Cons)
  qed
qed

lemma takeWhile_upto:
  "c \<notin> set A \<Longrightarrow> takeWhile (\<lambda>x. x \<noteq> c) (A @ c # B) = A"
  by (induction A) auto

lemma bar_split:
  assumes "A @ ''|'' @ B = B @ ''|'' @ A"
    and "CHR ''|'' \<notin> set A" and "CHR ''|'' \<notin> set B"
  shows "A = B"
proof -
  have "takeWhile (\<lambda>c. c \<noteq> CHR ''|'') (A @ ''|'' @ B) = A"
    using assms(2) takeWhile_upto [of "CHR ''|''" A B] by simp
  moreover have "takeWhile (\<lambda>c. c \<noteq> CHR ''|'') (B @ ''|'' @ A) = B"
    using assms(3) takeWhile_upto [of "CHR ''|''" B A] by simp
  ultimately show ?thesis using assms(1) by simp
qed

lemma join_swap:
  assumes "A \<noteq> B" and "CHR ''|'' \<notin> set A" and "CHR ''|'' \<notin> set B"
  shows "join ''|'' (P @ [A, B] @ Q) \<noteq> join ''|'' (P @ [B, A] @ Q)"
proof
  assume eq: "join ''|'' (P @ [A, B] @ Q) = join ''|'' (P @ [B, A] @ Q)"
  have mid: "join ''|'' ([A, B] @ Q) = join ''|'' ([B, A] @ Q)"
  proof (cases "P = []")
    case True
    then show ?thesis using eq by simp
  next
    case False
    then show ?thesis
      using eq join_append [of P "[A, B] @ Q" "''|''"] join_append [of P "[B, A] @ Q" "''|''"]
      by simp
  qed
  have "A @ ''|'' @ B = B @ ''|'' @ A"
  proof (cases "Q = []")
    case True
    then show ?thesis using mid by simp
  next
    case False
    then show ?thesis
      using mid join_append [of "[A, B]" Q "''|''"] join_append [of "[B, A]" Q "''|''"]
      by simp
  qed
  then show False using bar_split assms by blast
qed

lemma filter_distinct_key:
  "distinct (map f l) \<Longrightarrow> k \<in> set l \<Longrightarrow> filter (\<lambda>x. f k = f x) l = [k]"
proof (induction l)
  case Nil
  then show ?case by simp
next
  case (Cons a l)
  show ?case
  proof (cases "k = a")
    case True
    have "filter (\<lambda>x. f a = f x) l = []"
      using Cons.prems(1) by (auto simp: filter_empty_conv)
    then show ?thesis using True by simp
  next
    case False
    then have k: "k \<in> set l" using Cons.prems(2) by simp
    have "f a \<notin> f ` set l" using Cons.prems(1) by simp
    then have "f k \<noteq> f a" using k by (metis imageI)
    then show ?thesis using Cons.IH k Cons.prems(1) by simp
  qed
qed

lemma sort_key_permutation:
  assumes "distinct (map f xs)" and "mset ys = mset xs"
  shows "sort_key f ys = sort_key f xs"
proof (rule properties_for_sort_key)
  show "mset (sort_key f xs) = mset ys" using assms by simp
  show "sorted (map f (sort_key f xs))" by simp
next
  fix k assume k: "k \<in> set (sort_key f xs)"
  have "mset (map f ys) = mset (map f xs)" using assms(2) by (metis mset_map)
  then have dy: "distinct (map f ys)"
    using assms(1) mset_eq_imp_distinct_iff by blast
  have ds: "distinct (map f (sort_key f xs))"
    using assms(1) by (simp add: distinct_map)
  have ky: "k \<in> set ys" using k assms(2) by (metis mset_eq_setD set_sort)
  show "filter (\<lambda>x. f k = f x) (sort_key f xs) = filter (\<lambda>x. f k = f x) ys"
    using filter_distinct_key [OF ds k] filter_distinct_key [OF dy ky] by simp
qed

lemma hex_digest_fake: "hex_digest fake_digest"
  by (simp add: hex_digest_def fake_digest_def is_hex_def list_all_length)

text \<open>
  What holds of the key for all arguments. Passing the keyword arguments in another
  order gives the same key. With a hexadecimal digest the key is \<open>rhythmbox:\<close>, the
  prefix, a colon and 16 hexadecimal characters. Two keys with the same prefix are equal
  exactly when the first 16 characters of the digests of their argument strings are.
  Swapping two adjacent positional arguments changes the argument string when their
  \<open>str\<close> forms differ and hold no \<open>|\<close>.
\<close>
lemma generate_key_properties:
  assumes "hex_digest h"
    and "distinct (map fst kwargs)" and "mset kwargs' = mset kwargs"
  shows "generate_key h prefix args kwargs' = generate_key h prefix args kwargs
       \<and> (\<exists>d. generate_key h prefix args kwargs = ''rhythmbox:'' @ prefix @ '':'' @ d
              \<and> length d = 16 \<and> list_all is_hex d)
       \<and> (generate_key h prefix args kwargs = generate_key h prefix args2 kwargs2
            \<longleftrightarrow> take 16 (h (key_string args kwargs)) = take 16 (h (key_string args2 kwargs2)))
       \<and> (py_str a \<noteq> py_str b \<and> CHR ''|'' \<notin> set (py_str a) \<and> CHR ''|'' \<notin> set (py_str b)
            \<longrightarrow> key_string (pre @ [a, b] @ post) kwargs \<noteq> key_string (pre @ [b, a] @ post) kwargs)"
proof -
  have 1: "generate_key h prefix args kwargs' = generate_key h prefix args kwargs"
    using sort_key_permutation [OF assms(2) assms(3)]
    by (simp add: generate_key_def key_string_def)
  have len: "length (h (key_string args kwargs)) = 32"
    and hex: "list_all is_hex (h (key_string args kwargs))"
    using assms(1) by (simp_all add: hex_digest_def)
  have "list_all is_hex (take 16 (h (key_string args kwargs)))"
    using hex by (auto simp: list_all_iff dest: in_set_takeD)
  then have 2: "\<exists>d. generate_key h prefix args kwargs = ''rhythmbox:'' @ prefix @ '':'' @ d
              \<and> length d = 16 \<and> list_all is_hex d"
    using len by (simp add: generate_key_def)
  have 3: "generate_key h prefix args kwargs = generate_key h prefix args2 kwargs2
            \<longleftrightarrow> take 16 (h (key_string args kwargs)) = take 16 (h (key_string args2 kwargs2))"
    by (simp add: generate_key_def)
  have 4: "py_str a \<noteq> py_str b \<and> CHR ''|'' \<notin> set (py_str a) \<and> CHR ''|'' \<notin> set (py_str b)
            \<longrightarrow> key_string (pre @ [a, b] @ post) kwargs \<noteq> key_string (pre @ [b, a] @ post) kwargs"
    using join_swap [of "py_str a" "py_str b" "map py_str pre"
            "map py_str post @ map (\<lambda>(k, v). k @ ''='' @ py_str v) (sort_key fst kwargs)"]
    by (simp add: key_string_def)
  show ?thesis using 1 2 3 4 by simp
qed

lemma generate_key_properties_example:
  "generate_key fake_digest ''search'' [PStr ''abc''] [(''market'', PStr ''BR''), (''limit'', PInt 5)]
     = generate_key fake_digest ''search'' [PStr ''abc''] [(''limit'', PInt 5), (''market'', PStr ''BR'')]
   \<and> generate_key fake_digest ''search'' [PStr ''abc''] [(''limit'', PInt 5), (''market'', PStr ''BR'')]
     = ''rhythmbox:search:0000000000000000''
   \<and> key_string [PStr ''abc'', PStr ''def''] [(''limit'', PInt 5), (''market'', PStr ''BR'')]
     \<noteq> key_string [PStr ''def'', PStr ''abc''] [(''limit'', PInt 5), (''market'', PStr ''BR'')]
   \<and> key_string [PStr ''abc''] [(''market'', PStr ''BR''), (''limit'', PInt 5)]
     = ''abc|limit=5|market=BR''"
proof -
  have e: "generate_key fake_digest ''search'' [PStr ''abc''] [(''limit'', PInt 5), (''market'', PStr ''BR'')]
     = ''rhythmbox:search:0000000000000000''"
    by code_simp
  have k: "key_string [PStr ''abc''] [(''market'', PStr ''BR''), (''limit'', PInt 5)]
     = ''abc|limit=5|market=BR''"
    by code_simp
  have d: "distinct (map fst [(''limit'', PInt 5), (''market'', PStr ''BR'')])" by simp
  have m: "mset [(''market'', PStr ''BR''), (''limit'', PInt 5)]
             = mset [(''limit'', PInt 5), (''market'', PStr ''BR'')]" by simp
  show ?thesis
    using generate_key_properties [OF hex_digest_fake d m, of "''search''" "[PStr ''abc'']" _ _
            "PStr ''abc''" "PStr ''def''" "[]" "[]"] e k
    by (simp add: py_str_def)
qed

text \<open>
  Claim C6, at the arguments where it fails. The positional arguments \<open>'a|a'\<close> and \<open>'a'\<close>
  are distinct, and in either order the argument string is \<open>a|a|a\<close>, so swapping them
  leaves the key as it is, whatever the digest, also behind the \<open>self\<close> of a decorated
  method. In the same way the call with the argument \<open>'abc'\<close> and the keyword \<open>limit=5\<close>
  and the call with the single argument \<open>'abc|limit=5'\<close> get one key.
\<close>
theorem cache_key_separator_collision:
  "key_string [PStr ''a|a'', PStr ''a''] [] = ''a|a|a''
   \<and> key_string [PStr ''a'', PStr ''a|a''] [] = ''a|a|a''
   \<and> PStr ''a|a'' \<noteq> PStr ''a''
   \<and> generate_key h prefix [PStr ''a|a'', PStr ''a''] []
       = generate_key h prefix [PStr ''a'', PStr ''a|a''] []
   \<and> generate_key h prefix [PObj self, PStr ''a|a'', PStr ''a''] []
       = generate_key h prefix [PObj self, PStr ''a'', PStr ''a|a''] []
   \<and> generate_key h prefix [PObj self, PStr ''abc''] [(''limit'', PInt 5)]
       = generate_key h prefix [PObj self, PStr ''abc|limit=5''] []"
proof -
  have 1: "key_string [PStr ''a|a'', PStr ''a''] [] = ''a|a|a''"
    and 2: "key_string [PStr ''a'', PStr ''a|a''] [] = ''a|a|a''"
    by (simp_all add: key_string_def py_str_def)
  have 3: "key_string [PObj self, PStr ''a|a'', PStr ''a''] []
             = key_string [PObj self, PStr ''a'', PStr ''a|a''] []"
    by (simp add: key_string_def py_str_def)
  have 4: "dec_nat 5 = ''5''" by code_simp
  have 5: "key_string [PObj self, PStr ''abc''] [(''limit'', PInt 5)]
             = key_string [PObj self, PStr ''abc|limit=5''] []"
    using 4 by (simp add: key_string_def py_str_def)
  show ?thesis using 1 2 3 5 by (simp add: generate_key_def)
qed
















lemma page_history_Suc:
  "page_history h (Suc k) = page_history h k @ [SavedTracksReq 50 (50 * int k)]"
  by (simp add: page_history_def)

lemma parse_Nil [simp]: "parse_tracks_from_response [] = []"
  by (simp add: parse_tracks_from_response_def List.map_filter_simps)

lemma stop_index_props:
  "stop_index ev h \<le> 1000
   \<and> (\<forall>j < stop_index ev h. full_page (page_reply ev h j))
   \<and> (stop_index ev h < 1000 \<longrightarrow> \<not> full_page (page_reply ev h (stop_index ev h)))"
proof (cases "find (\<lambda>j. \<not> full_page (page_reply ev h j)) [0..<1000]")
  case None
  then have s: "stop_index ev h = 1000" by (simp add: stop_index_def)
  have "\<forall>j<1000. full_page (page_reply ev h j)"
    using None by (auto simp: find_None_iff)
  then show ?thesis using s by simp
next
  case (Some i)
  then have s: "stop_index ev h = i" by (simp add: stop_index_def)
  obtain n where n: "n < 1000" "\<not> full_page (page_reply ev h ([0..<1000] ! n))"
      "i = [0..<1000] ! n" "\<forall>j<n. \<not> \<not> full_page (page_reply ev h ([0..<1000] ! j))"
    using Some unfolding find_Some_iff by auto
  have i: "i = n" using n(1,3) by simp
  have a: "\<not> full_page (page_reply ev h i)" using n(1,2) i by simp
  have b: "\<forall>j<i. full_page (page_reply ev h j)"
  proof (intro allI impI)
    fix j assume j: "j < i"
    then have "j < n" "j < 1000" using i n(1) by simp_all
    then show "full_page (page_reply ev h j)" using n(4) by (metis add_0 nth_upt)
  qed
  show ?thesis using s a b n(1) i by simp
qed


lemma get_all_loop_stop:
  assumes "\<not> full_page r" and "current_user_saved_tracks ev (sp_log w) 50 off = r"
  shows "get_all_loop ev acc off page w =
           ((case r of
               Raises e \<Rightarrow> ([], Some (''Erro ao obter todos os favoritos: '' @ e))
             | Returns x \<Rightarrow> (acc @ parse_tracks_from_response (page_items r), None)),
            w\<lparr>sp_log := sp_log w @ [SavedTracksReq 50 off]\<rparr>)"
  using assms
  by (subst get_all_loop.simps)
     (auto simp: sp_saved_tracks_def MAX_TRACKS_PER_REQUEST_def full_page_def page_items_def
        results_truthy_def split: reply.splits option.splits items_val.splits)

lemma get_all_loop_full:
  assumes "full_page r" and "current_user_saved_tracks ev (sp_log w) 50 off = r"
  shows "get_all_loop ev acc off page w =
           (if page + 1 > 1000
            then ((acc @ parse_tracks_from_response (page_items r), None),
                  w\<lparr>sp_log := sp_log w @ [SavedTracksReq 50 off]\<rparr>)
            else get_all_loop ev (acc @ parse_tracks_from_response (page_items r))
                   (off + 50) (page + 1) (w\<lparr>sp_log := sp_log w @ [SavedTracksReq 50 off]\<rparr>))"
  using assms
  by (subst get_all_loop.simps)
     (auto simp: sp_saved_tracks_def MAX_TRACKS_PER_REQUEST_def full_page_def page_items_def
        results_truthy_def Let_def split: reply.splits option.splits items_val.splits)

lemma get_all_loop_run:
  assumes "k \<le> m" and "m \<le> 1000" and "k < 1000"
    and "\<forall>j. k \<le> j \<and> j < m \<longrightarrow> full_page (page_reply ev h j)"
    and "m < 1000 \<longrightarrow> \<not> full_page (page_reply ev h m)"
    and "sp_log w = page_history h k"
  shows "get_all_loop ev acc (50 * int k) (int k + 1) w =
           ((case (if m < 1000 then page_reply ev h m else Returns None) of
               Raises e \<Rightarrow> ([], Some (''Erro ao obter todos os favoritos: '' @ e))
             | Returns x \<Rightarrow>
                 (acc @ concat (map (\<lambda>j. parse_tracks_from_response (page_items (page_reply ev h j)))
                                  [k..<min (Suc m) 1000]), None)),
            w\<lparr>sp_log := page_history h (min (Suc m) 1000)\<rparr>)"
  using assms
proof (induction "m - k" arbitrary: k acc w)
  case 0
  then have km: "k = m" and m: "m < 1000" by simp_all
  have nf: "\<not> full_page (page_reply ev h m)" using "0.prems"(5) m by simp
  have r: "current_user_saved_tracks ev (sp_log w) 50 (50 * int k) = page_reply ev h m"
    using "0.prems"(6) km by (simp add: page_reply_def)
  have mn: "min (Suc m) 1000 = Suc m" using m by simp
  show ?case
    unfolding get_all_loop_stop [OF nf r] mn
    using m km "0.prems"(6) by (simp add: page_history_Suc split: reply.splits)
next
  case (Suc d)
  then have lt: "k < m" by simp
  let ?r = "page_reply ev h k"
  let ?w1 = "w\<lparr>sp_log := sp_log w @ [SavedTracksReq 50 (50 * int k)]\<rparr>"
  let ?acc1 = "acc @ parse_tracks_from_response (page_items ?r)"
  have f: "full_page ?r" using Suc.prems(4) lt by simp
  have r: "current_user_saved_tracks ev (sp_log w) 50 (50 * int k) = ?r"
    using Suc.prems(6) by (simp add: page_reply_def)
  have l1: "sp_log ?w1 = page_history h (Suc k)"
    using Suc.prems(6) by (simp add: page_history_Suc)
  show ?case
  proof (cases "k = 999")
    case True
    then have m: "m = 1000" using lt Suc.prems(2) by simp
    have up: "[k..<min (Suc m) 1000] = [k]" using True m by simp
    show ?thesis
      unfolding get_all_loop_full [OF f r] up
      using True m l1 by simp
  next
    case False
    then have k1: "Suc k < 1000" using Suc.prems(3) by simp
    have d: "d = m - Suc k" using Suc.hyps(2) by simp
    have kk: "Suc k \<le> m" using lt by simp
    have a4: "\<forall>j. Suc k \<le> j \<and> j < m \<longrightarrow> full_page (page_reply ev h j)"
      using Suc.prems(4) by simp
    have e1: "50 * int (Suc k) = 50 * int k + 50" "int (Suc k) + 1 = int k + 1 + 1" by simp_all
    have ih: "get_all_loop ev ?acc1 (50 * int (Suc k)) (int (Suc k) + 1) ?w1 =
           ((case (if m < 1000 then page_reply ev h m else Returns None) of
               Raises e \<Rightarrow> ([], Some (''Erro ao obter todos os favoritos: '' @ e))
             | Returns x \<Rightarrow>
                 (?acc1 @ concat (map (\<lambda>j. parse_tracks_from_response (page_items (page_reply ev h j)))
                                  [Suc k..<min (Suc m) 1000]), None)),
            ?w1\<lparr>sp_log := page_history h (min (Suc m) 1000)\<rparr>)"
      by (rule Suc.hyps(1) [OF d kk Suc.prems(2) k1 a4 Suc.prems(5) l1])
    have cont: "\<not> int k + 1 + 1 > 1000" using k1 by simp
    have up: "[k..<min (Suc m) 1000] = k # [Suc k..<min (Suc m) 1000]"
      using lt Suc.prems(3) by (simp add: upt_conv_Cons)
    have step: "get_all_loop ev acc (50 * int k) (int k + 1) w =
                  get_all_loop ev ?acc1 (50 * int (Suc k)) (int (Suc k) + 1) ?w1"
      unfolding get_all_loop_full [OF f r] e1 using cont by (simp only: if_False)
    show ?thesis
      unfolding step ih up by (simp split: reply.splits)
  qed
qed


lemma stop_index_eq:
  assumes "m \<le> 1000" and "\<forall>j<m. full_page (page_reply ev h j)"
    and "m < 1000 \<longrightarrow> \<not> full_page (page_reply ev h m)"
  shows "stop_index ev h = m"
proof (rule ccontr)
  assume ne: "stop_index ev h \<noteq> m"
  let ?s = "stop_index ev h"
  have p: "?s \<le> 1000" "\<forall>j < ?s. full_page (page_reply ev h j)"
      "?s < 1000 \<longrightarrow> \<not> full_page (page_reply ev h ?s)"
    using stop_index_props [of ev h] by simp_all
  consider "?s < m" | "m < ?s" using ne by linarith
  then show False
  proof cases
    case 1
    then have "full_page (page_reply ev h ?s)" "?s < 1000" using assms(1,2) by simp_all
    then show False using p(3) by simp
  next
    case 2
    then have "full_page (page_reply ev h m)" "m < 1000" using p(1,2) by simp_all
    then show False using assms(3) by simp
  qed
qed

text \<open>
  Claim C7. Once authenticated, the fetch-all operation returns. It requests pages of
  50 at the offsets 0, 50, 100 and so on, goes on after a page exactly when that page
  is a list of at least 50 items, and stops with the first page that is not, or after
  1000 pages when all of them are: \<open>m\<close> is the index of that first page, 1000 when there
  is none, and the requests made are the first \<open>min (m + 1) 1000\<close>. What it returns is the
  tracks of all pages requested and no error, unless the last request raised; after 1000
  full pages it is the tracks of those pages and no error.
\<close>
theorem fetch_all_terminates:
  assumes "auth ev (sp_log w) = Authenticated"
    and "h = sp_log w @ [AuthCheck]" and "m = stop_index ev h"
  shows "m \<le> 1000
       \<and> (\<forall>j<m. full_page (page_reply ev h j))
       \<and> (m < 1000 \<longrightarrow> \<not> full_page (page_reply ev h m))
       \<and> sp_log (snd (get_all_saved_tracks ev w)) = page_history h (min (Suc m) 1000)
       \<and> fst (get_all_saved_tracks ev w) =
           (case (if m < 1000 then page_reply ev h m else Returns None) of
              Raises e \<Rightarrow> ([], Some (''Erro ao obter todos os favoritos: '' @ e))
            | Returns x \<Rightarrow>
                (concat (map (\<lambda>j. parse_tracks_from_response (page_items (page_reply ev h j)))
                           [0..<min (Suc m) 1000]), None))
       \<and> (m = 1000 \<longrightarrow> snd (fst (get_all_saved_tracks ev w)) = None)"
proof -
  define w1 where "w1 = (enter GetAllSavedTracks w)\<lparr>sp_log := sp_log w @ [AuthCheck]\<rparr>"
  have va: "validate_authentication ev (enter GetAllSavedTracks w) = ((True, None), w1)"
    using assms(1) by (simp add: validate_authentication_def enter_def w1_def)
  have l1: "sp_log w1 = page_history h 0"
    using assms(2) by (simp add: page_history_def w1_def)
  have p: "m \<le> 1000" "\<forall>j<m. full_page (page_reply ev h j)"
      "m < 1000 \<longrightarrow> \<not> full_page (page_reply ev h m)"
    using stop_index_props [of ev h] assms(3) by simp_all
  have a4: "\<forall>j. 0 \<le> j \<and> j < m \<longrightarrow> full_page (page_reply ev h j)" using p(2) by simp
  have z: "(0::nat) \<le> m" "(0::nat) < 1000" by simp_all
  have run: "get_all_loop ev [] (50 * int 0) (int 0 + 1) w1 =
           ((case (if m < 1000 then page_reply ev h m else Returns None) of
               Raises e \<Rightarrow> ([], Some (''Erro ao obter todos os favoritos: '' @ e))
             | Returns x \<Rightarrow>
                 ([] @ concat (map (\<lambda>j. parse_tracks_from_response (page_items (page_reply ev h j)))
                                  [0..<min (Suc m) 1000]), None)),
            w1\<lparr>sp_log := page_history h (min (Suc m) 1000)\<rparr>)"
    by (rule get_all_loop_run [OF z(1) p(1) z(2) a4 p(3) l1])
  have unf: "get_all_saved_tracks ev w = get_all_loop ev [] 0 1 w1"
    using va by (simp add: get_all_saved_tracks_def truthy_def)
  have 1: "sp_log (snd (get_all_saved_tracks ev w)) = page_history h (min (Suc m) 1000)"
    using run unfolding unf by (simp split: reply.splits if_splits)
  have 2: "fst (get_all_saved_tracks ev w) =
           (case (if m < 1000 then page_reply ev h m else Returns None) of
              Raises e \<Rightarrow> ([], Some (''Erro ao obter todos os favoritos: '' @ e))
            | Returns x \<Rightarrow>
                (concat (map (\<lambda>j. parse_tracks_from_response (page_items (page_reply ev h j)))
                           [0..<min (Suc m) 1000]), None))"
    using run unfolding unf by (simp split: reply.splits if_splits)
  have 3: "m = 1000 \<longrightarrow> snd (fst (get_all_saved_tracks ev w)) = None"
    unfolding 2 by (simp split: reply.splits)
  show ?thesis using p 1 2 3 by blast
qed


lemma parse_replicate_Some:
  "parse_tracks_from_response (replicate n (Some t)) = replicate n t"
  by (induction n) (simp_all add: parse_tracks_from_response_def List.map_filter_simps)

lemma length_concat_const:
  "(\<And>x. x \<in> set xs \<Longrightarrow> length (f x) = c) \<Longrightarrow> length (concat (map f xs)) = c * length xs"
  by (induction xs) simp_all

theorem fetch_all_terminates_witness:
  "fst (get_all_saved_tracks (library_env (numbered_library 57)) w_init) =
     (numbered_library 57, None)
   \<and> sp_log (snd (get_all_saved_tracks (library_env (numbered_library 57)) w_init)) =
     [AuthCheck, SavedTracksReq 50 0, SavedTracksReq 50 50]
   \<and> snd (fst (get_all_saved_tracks (endless_env (mk_track ''t'' ''n'' ''a'')) w_init)) = None
   \<and> length (fst (fst (get_all_saved_tracks (endless_env (mk_track ''t'' ''n'' ''a'')) w_init))) = 50000
   \<and> length (sp_log (snd (get_all_saved_tracks (endless_env (mk_track ''t'' ''n'' ''a'')) w_init))) = 1001"
proof -
  let ?ev = "library_env (numbered_library 57)"
  let ?t = "mk_track ''t'' ''n'' ''a''"
  let ?en = "endless_env ?t"
  have h: "[AuthCheck] = sp_log w_init @ [AuthCheck]" by (simp add: w_init_def)
  have au: "auth ?ev (sp_log w_init) = Authenticated" by (simp add: library_env_def)
  have p0: "full_page (page_reply ?ev [AuthCheck] 0)" by code_simp
  have p1: "\<not> full_page (page_reply ?ev [AuthCheck] 1)" by code_simp
  have si: "1 = stop_index ?ev [AuthCheck]"
    using stop_index_eq [of 1 ?ev "[AuthCheck]"] p0 p1 by simp
  have r: "(case (if (1::nat) < 1000 then page_reply ?ev [AuthCheck] 1 else Returns None) of
              Raises e \<Rightarrow> ([], Some (''Erro ao obter todos os favoritos: '' @ e))
            | Returns x \<Rightarrow>
                (concat (map (\<lambda>j. parse_tracks_from_response (page_items (page_reply ?ev [AuthCheck] j)))
                           [0..<min (Suc 1) 1000]), None)) = (numbered_library 57, None)"
    by code_simp
  have hi: "page_history [AuthCheck] (min (Suc 1) 1000) =
              [AuthCheck, SavedTracksReq 50 0, SavedTracksReq 50 50]"
    by code_simp
  have a: "fst (get_all_saved_tracks ?ev w_init) = (numbered_library 57, None)
           \<and> sp_log (snd (get_all_saved_tracks ?ev w_init)) =
               [AuthCheck, SavedTracksReq 50 0, SavedTracksReq 50 50]"
    using fetch_all_terminates [OF au h si] unfolding r hi by blast
  have au2: "auth ?en (sp_log w_init) = Authenticated"
    by (simp add: endless_env_def library_env_def)
  have it: "\<And>j. page_items (page_reply ?en [AuthCheck] j) = replicate 50 (Some ?t)"
    by (simp add: page_items_def page_reply_def endless_env_def)
  have fp: "\<And>j. full_page (page_reply ?en [AuthCheck] j)"
    unfolding full_page_def it by (simp add: page_reply_def endless_env_def)
  have si2: "1000 = stop_index ?en [AuthCheck]"
    using stop_index_eq [of 1000 ?en "[AuthCheck]"] fp by simp
  have b0: "sp_log (snd (get_all_saved_tracks ?en w_init)) = page_history [AuthCheck] (min (Suc 1000) 1000)"
    and b1: "fst (get_all_saved_tracks ?en w_init) =
           (case (if (1000::nat) < 1000 then page_reply ?en [AuthCheck] 1000 else Returns None) of
              Raises e \<Rightarrow> ([], Some (''Erro ao obter todos os favoritos: '' @ e))
            | Returns x \<Rightarrow>
                (concat (map (\<lambda>j. parse_tracks_from_response (page_items (page_reply ?en [AuthCheck] j)))
                           [0..<min (Suc 1000) 1000]), None))"
    using fetch_all_terminates [OF au2 h si2] by blast+
  have b2: "fst (get_all_saved_tracks ?en w_init) =
              (concat (map (\<lambda>j. replicate 50 ?t) [0..<1000]), None)"
    unfolding b1 it parse_replicate_Some by simp
  have b3: "length (concat (map (\<lambda>j::nat. replicate 50 ?t) [0..<1000])) = 50 * length [0..<1000]"
    by (rule length_concat_const) simp
  have b: "snd (fst (get_all_saved_tracks ?en w_init)) = None
         \<and> length (fst (fst (get_all_saved_tracks ?en w_init))) = 50000
         \<and> length (sp_log (snd (get_all_saved_tracks ?en w_init))) = 1001"
    unfolding b0 b2 using b3 by (simp add: page_history_def)
  show ?thesis using a b by blast
qed




lemma cache_set_f_calls [simp]: "f_calls (snd (cache_set cd cm key v ttl w)) = f_calls w"
  by (simp add: cache_set_def enabled_def redis_call_def split: option.splits reply.splits bool.splits)











end
